theory Spec2Isabelle
  imports Complex_Main "HOL-Library.Sublist"
begin

section \<open>JavaScript values\<close>

text \<open>
  The three files of the repository are three successive versions of one browser client:
  \<^verbatim>\<open>src/unnamed/part_000\<close> (the earliest, suffix \<open>_p0\<close> below),
  \<^verbatim>\<open>src/unnamed/part_001\<close> (suffix \<open>_p1\<close>) and
  \<^verbatim>\<open>src/mileage_app/static/app.js\<close> (no suffix).

  JavaScript numbers are modelled as exact reals: rounding of IEEE doubles and the locale
  formatting of \<^verbatim>\<open>toFixed\<close> and \<^verbatim>\<open>toLocaleString\<close> are outside the model, which records
  the number handed to the formatter. Strings are lists of characters. A value that may be
  \<^verbatim>\<open>null\<close> or \<^verbatim>\<open>undefined\<close> is an option, exactly where the source guards against it.
\<close>

datatype json =
    JNull
  | JBool bool
  | JNum real
  | JStr string
  | JArr "json list"
  | JObj "(string \<times> json) list"




text \<open>Decimal rendering of an integer inside a template literal.\<close>

definition digit_char :: "nat \<Rightarrow> char" where
  "digit_char d = ''0123456789'' ! d"

fun show_nat :: "nat \<Rightarrow> string" where
  "show_nat n = (if n < 10 then [digit_char n] else show_nat (n div 10) @ [digit_char (n mod 10)])"

declare show_nat.simps [simp del]

definition show_int :: "int \<Rightarrow> string" where
  "show_int i = (if i < 0 then CHR ''-'' # show_nat (nat (- i)) else show_nat (nat i))"

text \<open>
  \<^verbatim>\<open>s.includes(sub)\<close>: \<open>sub\<close> occurs in \<open>s\<close> as a contiguous run of characters.
\<close>

fun str_includes :: "string \<Rightarrow> string \<Rightarrow> bool" where
  "str_includes [] sub = (sub = [])"
| "str_includes (c # cs) sub = (prefix sub (c # cs) \<or> str_includes cs sub)"

section \<open>escapeHtml (part_000, part_001)\<close>

text \<open>
  \<^verbatim>\<open>(str || "").replace(/[&<>"']/g, m => ({"&":"&amp;", ...}[m]))\<close>.
  The global replace scans the string once from the left; every character in the class is
  replaced by what the callback returns, which is a lookup in the object literal. A lookup
  that misses would return \<^verbatim>\<open>undefined\<close>, which \<^verbatim>\<open>replace\<close> inserts as the text
  \<^verbatim>\<open>undefined\<close>. The \<^verbatim>\<open>escapeHtml\<close> of app.js is another function: it hands the string to the
  browser's serializer (\<^verbatim>\<open>textContent\<close>, then \<^verbatim>\<open>innerHTML\<close>), which is no code of the
  repository; where app.js escapes a value, the model keeps the value itself.
\<close>

definition entity_table :: "(char \<times> string) list" where
  "entity_table =
     [(CHR ''&'', ''&amp;''), (CHR ''<'', ''&lt;''), (CHR ''>'', ''&gt;''),
      (CHR 0x22, ''&quot;''), (CHR 0x27, ''&#039;'')]"

definition escape_class :: "char \<Rightarrow> bool" where
  "escape_class c = (c \<in> set [CHR ''&'', CHR ''<'', CHR ''>'', CHR 0x22, CHR 0x27])"

definition escape_callback :: "char \<Rightarrow> string" where
  "escape_callback m = (case map_of entity_table m of Some e \<Rightarrow> e | None \<Rightarrow> ''undefined'')"

fun replace_all :: "(char \<Rightarrow> bool) \<Rightarrow> (char \<Rightarrow> string) \<Rightarrow> string \<Rightarrow> string" where
  "replace_all cls f [] = []"
| "replace_all cls f (c # cs) =
     (if cls c then f c @ replace_all cls f cs else c # replace_all cls f cs)"

definition escapeHtml :: "string option \<Rightarrow> string" where
  "escapeHtml str = replace_all escape_class escape_callback (case str of None \<Rightarrow> [] | Some s \<Rightarrow> s)"

text \<open>
  The replacement as the specification words it: one entity per special character, any
  other character kept.
\<close>

definition entity_of :: "char \<Rightarrow> string" where
  "entity_of c =
     (if c = CHR ''&'' then ''&amp;''
      else if c = CHR ''<'' then ''&lt;''
      else if c = CHR ''>'' then ''&gt;''
      else if c = CHR 0x22 then ''&quot;''
      else if c = CHR 0x27 then ''&#039;''
      else [c])"

section \<open>fetchJSON\<close>












section \<open>Data consumed from the server\<close>

text \<open>
  The entities of the REST interface, with the fields the client reads. A field is an
  option exactly where the source guards against its absence
  (\<^verbatim>\<open>t.distance_one_way_km || ...\<close>, \<^verbatim>\<open>s.reimbursement_estimate_dkk?.toFixed(2)\<close>,
  \<^verbatim>\<open>loc.postal_code ? ... : ...\<close>). The reimbursement estimate of a summary is read as
  \<^verbatim>\<open>reimbursement_estimate_dkk\<close> by part_000 and as \<^verbatim>\<open>reimbursement_dkk\<close> by part_001.
\<close>

record trip =
  trip_id :: int
  trip_date :: string
  purpose :: string
  origin :: string
  destination :: string
  round_trip :: bool
  distance_km :: real
  distance_one_way_km :: "real option"

record location =
  loc_id :: int
  loc_name :: string
  loc_address :: string
  loc_postal_code :: "string option"
  loc_is_home :: bool

record summary =
  trip_count :: nat
  total_km :: real
  reimbursement :: "real option"
  rate_high :: real
  rate_low :: real

record calendar_event =
  ev_date :: string
  ev_title :: string
  ev_location :: string

text \<open>
  A call \<^verbatim>\<open>fetchJSON(url, opts)\<close>: the method (\<^verbatim>\<open>fetch\<close> sends GET when \<open>opts\<close> names
  none), the URL, the \<^verbatim>\<open>Content-Type\<close> header and the object handed to
  \<^verbatim>\<open>JSON.stringify\<close> for the body, as its list of fields in the order written.
\<close>

record request =
  req_method :: string
  req_url :: string
  req_content_type :: "string option"
  req_body :: "(string \<times> json) list option"

definition GET :: "string \<Rightarrow> request" where
  "GET u = \<lparr>req_method = ''GET'', req_url = u, req_content_type = None, req_body = None\<rparr>"

text \<open>
  The outcome of an awaited \<^verbatim>\<open>fetchJSON\<close> as its callers see it: \<open>Inl m\<close> when it threw an
  error with message \<open>m\<close>, \<open>Inr v\<close> when it returned \<open>v\<close>, read at the type the caller uses
  it at.
\<close>

type_synonym 'a outcome = "string + 'a"

section \<open>app.js: state and page\<close>

text \<open>
  \<^verbatim>\<open>state.selectedMonth\<close> is \<^verbatim>\<open>'all'\<close> or a month number 1-12 (the source's comment);
  \<open>Month m\<close> is the value whose \<^verbatim>\<open>parseInt(_, 10)\<close> is \<open>m\<close>.
\<close>

datatype month_sel = AllMonths | Month nat

record rates =
  high :: real
  low :: real

text \<open>
  One row of \<^verbatim>\<open>#sheet-body\<close>: the trip whose fields are interpolated, and the three values
  \<^verbatim>\<open>renderTrips\<close> computes for it.
\<close>

record sheet_row =
  row_trip :: trip
  row_type_label :: string
  row_one_way_km :: real
  row_long_distance :: bool

text \<open>
  The client: the fields of the \<^verbatim>\<open>state\<close> object, the variable \<^verbatim>\<open>yearlyRates\<close>, and the
  parts of the page that the modelled functions read or write. Numbers shown on the page
  are kept as the number handed to \<^verbatim>\<open>formatNumber\<close>. The month tabs are taken to be the
  tab \<^verbatim>\<open>all\<close> and the tabs 1 to 12. \<open>toasts\<close> lists every toast shown, oldest first, as
  message and type; their timed dismissal is not modelled.
\<close>

record client =
  locations :: "location list"
  trips :: "trip list"
  filteredTrips :: "trip list"
  selectedYear :: int
  selectedMonth :: month_sel
  selectedOrigin :: "int option"
  selectedDest :: "int option"
  searchQuery :: string
  activeFilter :: string
  isLoading :: bool
  deleteTargetId :: "int option"
  editingTripId :: "int option"
  yearlyRates :: rates
  stat_trips :: nat
  stat_km :: real
  stat_amount :: real
  stat_rate :: real
  sheet_body :: "sheet_row list"
  empty_hidden :: bool
  loading_hidden :: bool
  tab_all_has_data :: bool
  tab_all_count :: "nat option"
  tabs_with_data :: "nat list"
  toasts :: "(string \<times> string) list"
  live_region :: string
  console_errors :: "string list"
  in_trip_date :: string
  in_purpose :: string
  in_origin :: string
  in_destination :: string
  in_round_trip :: bool
  btn_disabled :: bool
  btn_text :: string
  spinner_hidden :: bool
  trip_modal_hidden :: bool
  preview_hidden :: bool
  preview_text :: string
  cal_loading_hidden :: bool
  cal_empty_hidden :: bool
  cal_not_connected_hidden :: bool
  cal_events_hidden :: bool
  cal_events :: "calendar_event list"

text \<open>
  The state the script starts from: the \<^verbatim>\<open>state\<close> literal and \<^verbatim>\<open>yearlyRates\<close> as written
  (with the current year given), and a page with nothing shown yet.
\<close>

definition init_client :: "int \<Rightarrow> client" where
  "init_client y =
     \<lparr>locations = [], trips = [], filteredTrips = [], selectedYear = y,
      selectedMonth = AllMonths, selectedOrigin = None, selectedDest = None,
      searchQuery = [], activeFilter = ''all'', isLoading = False,
      deleteTargetId = None, editingTripId = None,
      yearlyRates = \<lparr>high = 3.94, low = 2.28\<rparr>,
      stat_trips = 0, stat_km = 0, stat_amount = 0, stat_rate = 0,
      sheet_body = [], empty_hidden = True, loading_hidden = True,
      tab_all_has_data = False, tab_all_count = None, tabs_with_data = [],
      toasts = [], live_region = [], console_errors = [],
      in_trip_date = [], in_purpose = [], in_origin = [], in_destination = [],
      in_round_trip = True, btn_disabled = False, btn_text = ''Gem tur'',
      spinner_hidden = True, trip_modal_hidden = True, preview_hidden = True,
      preview_text = ''--'', cal_loading_hidden = True, cal_empty_hidden = True,
      cal_not_connected_hidden = True, cal_events_hidden = True, cal_events = []\<rparr>"

text \<open>
  \<^verbatim>\<open>showToast(message, type)\<close> appends the toast and writes the message to the live
  region.
\<close>

definition showToast :: "string \<Rightarrow> string \<Rightarrow> client \<Rightarrow> client" where
  "showToast message type c = c\<lparr>toasts := toasts c @ [(message, type)], live_region := message\<rparr>"

subsection \<open>Stats bar\<close>

text \<open>
  \<^verbatim>\<open>state.filteredTrips.reduce((sum, t) => sum + t.distance_km, 0)\<close> is a left fold.
\<close>

definition totalKm :: "trip list \<Rightarrow> real" where
  "totalKm ts = foldl (\<lambda>sum t. sum + distance_km t) 0 ts"

definition updateStatsDisplay :: "client \<Rightarrow> client" where
  "updateStatsDisplay c =
     (let totalKm = totalKm (filteredTrips c);
          tripCount = length (filteredTrips c);
          threshold = 20000;
          reimbursement =
            (if totalKm \<le> threshold then totalKm * high (yearlyRates c)
             else (threshold * high (yearlyRates c)) + ((totalKm - threshold) * low (yearlyRates c)))
      in c\<lparr>stat_trips := tripCount, stat_km := totalKm, stat_amount := reimbursement,
            stat_rate := high (yearlyRates c)\<rparr>)"

subsection \<open>Filtering\<close>

text \<open>
  \<^verbatim>\<open>new Date(t.trip_date).getMonth()\<close> depends on the browser's time zone and is a
  parameter \<open>getMonth\<close>: the month index 0-11, or \<open>None\<close> for the \<^verbatim>\<open>NaN\<close> of an invalid
  date. \<^verbatim>\<open>toLowerCase\<close> is a parameter \<open>lower\<close>.
\<close>

definition tripMonth :: "(string \<Rightarrow> nat option) \<Rightarrow> trip \<Rightarrow> nat option" where
  "tripMonth getMonth t = map_option Suc (getMonth (trip_date t))"

definition applyFilters :: "(string \<Rightarrow> nat option) \<Rightarrow> (string \<Rightarrow> string) \<Rightarrow> client \<Rightarrow> client" where
  "applyFilters getMonth lower c =
     (let filtered = trips c;
          filtered =
            (case selectedMonth c of
               AllMonths \<Rightarrow> filtered
             | Month month \<Rightarrow> filter (\<lambda>t. tripMonth getMonth t = Some month) filtered);
          filtered =
            (if searchQuery c \<noteq> [] then
               (let query = lower (searchQuery c) in
                filter (\<lambda>t. str_includes (lower (purpose t)) query \<or>
                            str_includes (lower (origin t)) query \<or>
                            str_includes (lower (destination t)) query) filtered)
             else filtered);
          filtered =
            (if activeFilter c = ''round-trip'' then filter (\<lambda>t. round_trip t) filtered
             else if activeFilter c = ''one-way'' then filter (\<lambda>t. \<not> round_trip t) filtered
             else filtered)
      in c\<lparr>filteredTrips := filtered\<rparr>)"

text \<open>Lower-casing of the ASCII letters, for the examples.\<close>

definition ascii_lower_char :: "char \<Rightarrow> char" where
  "ascii_lower_char ch =
     (case map_of (zip ''ABCDEFGHIJKLMNOPQRSTUVWXYZ'' ''abcdefghijklmnopqrstuvwxyz'') ch of
        Some l \<Rightarrow> l
      | None \<Rightarrow> ch)"

definition ascii_lower :: "string \<Rightarrow> string" where
  "ascii_lower s = map ascii_lower_char s"

text \<open>
  The month of a date written \<^verbatim>\<open>YYYY-MM-DD\<close> as a browser east of Greenwich or on it reads
  it, for the examples: the two digits after the first hyphen.
\<close>

definition digit_val :: "char \<Rightarrow> nat option" where
  "digit_val ch = (let n = (of_char ch :: nat) in if 48 \<le> n \<and> n \<le> 57 then Some (n - 48) else None)"

definition iso_month :: "string \<Rightarrow> nat option" where
  "iso_month s =
     (if length s = 10 then
        (case (digit_val (s ! 5), digit_val (s ! 6)) of
           (Some a, Some b) \<Rightarrow> if 1 \<le> 10 * a + b \<and> 10 * a + b \<le> 12 then Some (10 * a + b - 1) else None
         | _ \<Rightarrow> None)
      else None)"

subsection \<open>Trip list\<close>

text \<open>
  \<^verbatim>\<open>t.distance_one_way_km || (t.round_trip ? t.distance_km / 2 : t.distance_km)\<close>: the left
  operand is falsy when it is absent, null or 0.
\<close>

definition oneWayKm :: "trip \<Rightarrow> real" where
  "oneWayKm t =
     (case distance_one_way_km t of
        Some d \<Rightarrow> if d \<noteq> 0 then d else (if round_trip t then distance_km t / 2 else distance_km t)
      | None \<Rightarrow> (if round_trip t then distance_km t / 2 else distance_km t))"

definition sheet_row_of :: "trip \<Rightarrow> sheet_row" where
  "sheet_row_of t =
     \<lparr>row_trip = t,
      row_type_label = (if round_trip t then ''Tur/retur'' else ''Enkelt''),
      row_one_way_km = oneWayKm t,
      row_long_distance = (distance_km t > 100)\<rparr>"

definition renderTrips :: "client \<Rightarrow> client" where
  "renderTrips c =
     (let isEmpty = (length (filteredTrips c) = 0);
          c = updateStatsDisplay c;
          c = c\<lparr>empty_hidden := (\<not> isEmpty \<or> isLoading c)\<rparr>;
          c = c\<lparr>loading_hidden := (\<not> isLoading c)\<rparr>
      in if isEmpty \<or> isLoading c then c\<lparr>sheet_body := []\<rparr>
         else c\<lparr>sheet_body := map sheet_row_of (filteredTrips c)\<rparr>)"

definition setLoading :: "bool \<Rightarrow> client \<Rightarrow> client" where
  "setLoading b c = c\<lparr>isLoading := b, loading_hidden := (\<not> b)\<rparr>"

definition updateMonthTabIndicators :: "(string \<Rightarrow> nat option) \<Rightarrow> client \<Rightarrow> client" where
  "updateMonthTabIndicators getMonth c =
     (let monthCount = (\<lambda>m. length (filter (\<lambda>t. tripMonth getMonth t = Some m) (trips c)));
          total = length (trips c)
      in c\<lparr>tab_all_has_data := (total > 0),
            tab_all_count := (if total > 0 then Some total else None),
            tabs_with_data := filter (\<lambda>m. monthCount m > 0) [1..<13]\<rparr>)"

section \<open>Awaiting requests\<close>

text \<open>
  The browser runs one handler at a time. An \<^verbatim>\<open>async\<close> function runs on the current state
  up to its \<^verbatim>\<open>await fetchJSON(...)\<close>, which sends the request at once; the rest of the
  function runs, again in one piece, when the response has arrived. The two awaits inside
  \<^verbatim>\<open>fetchJSON\<close> (\<^verbatim>\<open>fetch\<close>, then \<^verbatim>\<open>res.text()\<close>) touch no state and count as one. The trace of
  a run lists when each request was sent and when its \<^verbatim>\<open>fetchJSON\<close> settled.
\<close>

datatype event = Issued request | Settled request

text \<open>
  An \<^verbatim>\<open>async\<close> function that awaits one \<^verbatim>\<open>fetchJSON\<close>: what it does before sending, the
  request it sends, and what it does with the outcome (given the state it was called in,
  for the locals it captured); \<open>Some m\<close> beside the new state is a rejection with message
  \<open>m\<close>.
\<close>

record ('c, 'a) task =
  t_begin :: "'c \<Rightarrow> 'c"
  t_request :: "'c \<Rightarrow> request"
  t_settle :: "'c \<Rightarrow> 'a outcome \<Rightarrow> 'c \<Rightarrow> 'c \<times> string option"

text \<open>
  \<^verbatim>\<open>await Promise.all([A(), B()])\<close> for two such functions. \<open>A()\<close> is called and sends its
  request, then \<open>B()\<close> is called and sends its own; the order in which the two responses
  arrive is the environment's choice \<open>ord\<close>. The awaiting function resumes with \<open>k\<close>:
  at the first rejection with its message, or after both have fulfilled with \<open>None\<close>.
\<close>

datatype order = FirstSettlesFirst | SecondSettlesFirst

definition promise_all2 ::
  "('c, 'a) task \<Rightarrow> ('c, 'b) task \<Rightarrow> (string option \<Rightarrow> 'c \<Rightarrow> 'c) \<Rightarrow> order \<Rightarrow>
     'a outcome \<Rightarrow> 'b outcome \<Rightarrow> 'c \<Rightarrow> 'c \<times> event list" where
  "promise_all2 A B k ord ra rb c0 =
     (let ca = t_begin A c0; qa = t_request A ca;
          cb = t_begin B ca; qb = t_request B cb
      in case ord of
           FirstSettlesFirst \<Rightarrow>
             (let (c1, ea) = t_settle A ca ra cb in
              case ea of
                Some m \<Rightarrow>
                  (let c2 = k (Some m) c1; (c3, eb) = t_settle B cb rb c2
                   in (c3, [Issued qa, Issued qb, Settled qa, Settled qb]))
              | None \<Rightarrow>
                  (let (c2, eb) = t_settle B cb rb c1
                   in (k eb c2, [Issued qa, Issued qb, Settled qa, Settled qb])))
         | SecondSettlesFirst \<Rightarrow>
             (let (c1, eb) = t_settle B cb rb cb in
              case eb of
                Some m \<Rightarrow>
                  (let c2 = k (Some m) c1; (c3, ea) = t_settle A ca ra c2
                   in (c3, [Issued qa, Issued qb, Settled qb, Settled qa]))
              | None \<Rightarrow>
                  (let (c2, ea) = t_settle A ca ra c1
                   in (k ea c2, [Issued qa, Issued qb, Settled qb, Settled qa]))))"

text \<open>No request of the trace is sent after some \<^verbatim>\<open>fetchJSON\<close> of it has settled.\<close>

fun is_settled :: "event \<Rightarrow> bool" where
  "is_settled (Settled q) = True"
| "is_settled (Issued q) = False"

fun issued_together :: "event list \<Rightarrow> bool" where
  "issued_together [] = True"
| "issued_together (Issued q # es) = issued_together es"
| "issued_together (Settled q # es) = list_all is_settled es"

fun issued :: "event list \<Rightarrow> request list" where
  "issued [] = []"
| "issued (Issued q # es) = q # issued es"
| "issued (Settled q # es) = issued es"

section \<open>app.js: loading\<close>

definition loadTrips_request :: "client \<Rightarrow> request" where
  "loadTrips_request c = GET (''/api/trips?year='' @ show_int (selectedYear c))"

text \<open>
  The \<^verbatim>\<open>try\<close> block of \<^verbatim>\<open>loadTrips\<close> after the await, its \<^verbatim>\<open>catch\<close> and its \<^verbatim>\<open>finally\<close>.
\<close>

definition loadTrips_settle ::
  "(string \<Rightarrow> nat option) \<Rightarrow> (string \<Rightarrow> string) \<Rightarrow> trip list outcome \<Rightarrow> client \<Rightarrow> client" where
  "loadTrips_settle getMonth lower r c =
     setLoading False
       (case r of
          Inr ts \<Rightarrow>
            updateMonthTabIndicators getMonth
              (renderTrips (applyFilters getMonth lower (c\<lparr>trips := ts\<rparr>)))
        | Inl message \<Rightarrow> showToast message ''error'' c)"

definition loadTrips ::
  "(string \<Rightarrow> nat option) \<Rightarrow> (string \<Rightarrow> string) \<Rightarrow> (client, trip list) task" where
  "loadTrips getMonth lower =
     \<lparr>t_begin = setLoading True,
      t_request = loadTrips_request,
      t_settle = (\<lambda>c0 r c. (loadTrips_settle getMonth lower r c, None))\<rparr>"

definition loadSummary_request :: "client \<Rightarrow> request" where
  "loadSummary_request c = GET (''/api/summary?year='' @ show_int (selectedYear c))"

definition loadSummary_settle :: "summary outcome \<Rightarrow> client \<Rightarrow> client" where
  "loadSummary_settle r c =
     (case r of
        Inr s \<Rightarrow> updateStatsDisplay (c\<lparr>yearlyRates := \<lparr>high = rate_high s, low = rate_low s\<rparr>\<rparr>)
      | Inl message \<Rightarrow> c\<lparr>console_errors := console_errors c @ [''Failed to load summary:'']\<rparr>)"

definition loadSummary :: "(client, summary) task" where
  "loadSummary =
     \<lparr>t_begin = (\<lambda>c. c),
      t_request = loadSummary_request,
      t_settle = (\<lambda>c0 r c. (loadSummary_settle r c, None))\<rparr>"

text \<open>\<^verbatim>\<open>await Promise.all([loadTrips(), loadSummary()])\<close>, with nothing after it.\<close>

definition refresh ::
  "(string \<Rightarrow> nat option) \<Rightarrow> (string \<Rightarrow> string) \<Rightarrow> order \<Rightarrow> trip list outcome \<Rightarrow>
     summary outcome \<Rightarrow> client \<Rightarrow> client \<times> event list" where
  "refresh getMonth lower ord rt rs c =
     promise_all2 (loadTrips getMonth lower) loadSummary (\<lambda>e c. c) ord rt rs c"

section \<open>app.js: the trip form\<close>

text \<open>
  \<^verbatim>\<open>if (state.editingTripId)\<close>: the id is falsy when it is null or 0.
\<close>

definition truthy_id :: "int option \<Rightarrow> bool" where
  "truthy_id v = (case v of None \<Rightarrow> False | Some i \<Rightarrow> i \<noteq> 0)"

definition hideDistancePreview :: "client \<Rightarrow> client" where
  "hideDistancePreview c = c\<lparr>preview_hidden := True, preview_text := ''--''\<rparr>"

definition closeTripModal :: "client \<Rightarrow> client" where
  "closeTripModal c =
     hideDistancePreview
       (c\<lparr>trip_modal_hidden := True, editingTripId := None, selectedOrigin := None,
          selectedDest := None\<rparr>)"

text \<open>The part of \<^verbatim>\<open>handleTripFormSubmit\<close> before its \<^verbatim>\<open>try\<close>.\<close>

definition handleTripFormSubmit_begin :: "client \<Rightarrow> client" where
  "handleTripFormSubmit_begin c =
     c\<lparr>btn_disabled := True,
       btn_text := (if truthy_id (editingTripId c) then ''Gemmer...'' else ''Beregner rute...''),
       spinner_hidden := False\<rparr>"

text \<open>The request of the \<^verbatim>\<open>fetchJSON\<close> call that the \<^verbatim>\<open>try\<close> block opens with.\<close>

definition handleTripFormSubmit_request :: "client \<Rightarrow> request" where
  "handleTripFormSubmit_request c =
     (let tripDate = in_trip_date c;
          purposeV = in_purpose c;
          originV = in_origin c;
          destinationV = in_destination c;
          roundTrip = in_round_trip c;
          create =
            \<lparr>req_method = ''POST'', req_url = ''/api/trips'',
             req_content_type = Some ''application/json'',
             req_body = Some [(''trip_date'', JStr tripDate), (''purpose'', JStr purposeV),
                              (''origin'', JStr originV), (''destination'', JStr destinationV),
                              (''round_trip'', JBool roundTrip), (''travel_mode'', JStr ''DRIVE'')]\<rparr>
      in case editingTripId c of
           Some i \<Rightarrow>
             if i \<noteq> 0 then
               \<lparr>req_method = ''PATCH'', req_url = ''/api/trips/'' @ show_int i,
                req_content_type = Some ''application/json'',
                req_body = Some [(''trip_date'', JStr tripDate), (''purpose'', JStr purposeV)]\<rparr>
             else create
         | None \<Rightarrow> create)"

text \<open>
  The rest of the \<^verbatim>\<open>try\<close> block, the \<^verbatim>\<open>catch\<close> and the \<^verbatim>\<open>finally\<close>. \<^verbatim>\<open>formatNumber\<close> is
  a parameter \<open>fmt\<close> (value and decimals). The non-ASCII letter of the button's
  edit-mode label is written as its two UTF-8 bytes.
\<close>

definition handleTripFormSubmit_settle ::
  "(string \<Rightarrow> nat option) \<Rightarrow> (string \<Rightarrow> string) \<Rightarrow> (real \<Rightarrow> nat \<Rightarrow> string) \<Rightarrow>
     trip outcome \<Rightarrow> order \<Rightarrow> trip list outcome \<Rightarrow> summary outcome \<Rightarrow> client \<Rightarrow>
     client \<times> event list" where
  "handleTripFormSubmit_settle getMonth lower fmt r ord rt rs c =
     (let finish = (\<lambda>c. c\<lparr>btn_disabled := False,
                            btn_text := (if truthy_id (editingTripId c)
                                         then ''Gem '' @ [CHR 0xC3, CHR 0xA6] @ ''ndringer''
                                         else ''Gem tur''),
                            spinner_hidden := True\<rparr>)
      in case r of
           Inl message \<Rightarrow> (finish (showToast message ''error'' c), [])
         | Inr trip \<Rightarrow>
             (let c = (if truthy_id (editingTripId c) then showToast ''Tur opdateret'' ''success'' c
                       else showToast (''Gemt: '' @ fmt (distance_km trip) 1 @ '' km'') ''success'' c);
                  c = closeTripModal c;
                  (c, evs) = refresh getMonth lower ord rt rs c
              in (finish c, evs)))"

definition handleTripFormSubmit ::
  "(string \<Rightarrow> nat option) \<Rightarrow> (string \<Rightarrow> string) \<Rightarrow> (real \<Rightarrow> nat \<Rightarrow> string) \<Rightarrow>
     trip outcome \<Rightarrow> order \<Rightarrow> trip list outcome \<Rightarrow> summary outcome \<Rightarrow> client \<Rightarrow>
     client \<times> event list" where
  "handleTripFormSubmit getMonth lower fmt r ord rt rs c0 =
     (let c = handleTripFormSubmit_begin c0;
          q = handleTripFormSubmit_request c;
          (c, evs) = handleTripFormSubmit_settle getMonth lower fmt r ord rt rs c
      in (c, [Issued q, Settled q] @ evs))"

section \<open>app.js: calendar events\<close>

definition renderCalendarEvents :: "calendar_event list \<Rightarrow> client \<Rightarrow> client" where
  "renderCalendarEvents events c = c\<lparr>cal_events := events\<rparr>"

definition loadCalendarEvents_begin :: "client \<Rightarrow> client" where
  "loadCalendarEvents_begin c =
     c\<lparr>cal_loading_hidden := False, cal_empty_hidden := True,
       cal_not_connected_hidden := True, cal_events_hidden := True\<rparr>"

definition loadCalendarEvents_request :: request where
  "loadCalendarEvents_request = GET ''/api/calendar/events''"

text \<open>
  The \<^verbatim>\<open>try\<close> block after the await, and the \<^verbatim>\<open>catch\<close>. The outcome is \<open>Inr None\<close> for a
  null body.
\<close>

definition loadCalendarEvents_settle :: "calendar_event list option outcome \<Rightarrow> client \<Rightarrow> client" where
  "loadCalendarEvents_settle r c =
     (case r of
        Inr events \<Rightarrow>
          (let c = c\<lparr>cal_loading_hidden := True\<rparr> in
           case events of
             None \<Rightarrow> c\<lparr>cal_empty_hidden := False\<rparr>
           | Some evs \<Rightarrow>
               if length evs = 0 then c\<lparr>cal_empty_hidden := False\<rparr>
               else (renderCalendarEvents evs c)\<lparr>cal_events_hidden := False\<rparr>)
      | Inl message \<Rightarrow>
          (let c = c\<lparr>cal_loading_hidden := True\<rparr> in
           if str_includes message ''not configured'' \<or> str_includes message ''501''
           then c\<lparr>cal_not_connected_hidden := False\<rparr>
           else (showToast message ''error'' c)\<lparr>cal_not_connected_hidden := False\<rparr>))"

definition loadCalendarEvents :: "calendar_event list option outcome \<Rightarrow> client \<Rightarrow> client \<times> event list" where
  "loadCalendarEvents r c =
     (loadCalendarEvents_settle r (loadCalendarEvents_begin c),
      [Issued loadCalendarEvents_request, Settled loadCalendarEvents_request])"

section \<open>part_000\<close>

text \<open>
  The page of the earliest version: the year field (as \<^verbatim>\<open>parseInt\<close> reads it), the status
  and error lines, the table body, the summary line and the form fields. A table row and
  the summary line keep the values interpolated into them, numbers as handed to
  \<^verbatim>\<open>toFixed\<close>; \<open>None\<close> in the summary line prints as \<^verbatim>\<open>undefined\<close>.
\<close>

record row_p0 =
  r0_date :: string
  r0_purpose :: string
  r0_origin :: string
  r0_destination :: string
  r0_round_label :: string
  r0_km :: real
  r0_id :: int

record summary_line =
  sl_trip_count :: nat
  sl_total_km :: real
  sl_reimbursement :: "real option"

record page_p0 =
  p0_year :: int
  p0_status :: string
  p0_error :: string
  p0_tbody :: "row_p0 list"
  p0_summary :: "summary_line option"
  p0_trip_date :: string
  p0_purpose :: string
  p0_origin :: string
  p0_destination :: string
  p0_round_trip :: bool
  p0_travel_mode :: string

definition init_page_p0 :: "int \<Rightarrow> page_p0" where
  "init_page_p0 y =
     \<lparr>p0_year = y, p0_status = [], p0_error = [], p0_tbody = [], p0_summary = None,
      p0_trip_date = [], p0_purpose = [], p0_origin = [], p0_destination = [],
      p0_round_trip = False, p0_travel_mode = ''DRIVE''\<rparr>"

definition row_of_p0 :: "trip \<Rightarrow> row_p0" where
  "row_of_p0 t =
     \<lparr>r0_date = trip_date t,
      r0_purpose = escapeHtml (Some (purpose t)),
      r0_origin = escapeHtml (Some (origin t)),
      r0_destination = escapeHtml (Some (destination t)),
      r0_round_label = (if round_trip t then ''(round trip)'' else []),
      r0_km = distance_km t,
      r0_id = trip_id t\<rparr>"

text \<open>
  \<^verbatim>\<open>refresh\<close> awaits the trips, fills the table, then awaits the summary. The second
  component of the result is \<open>Some m\<close> when the function rejects with message \<open>m\<close>.
\<close>

definition refresh_p0 ::
  "trip list outcome \<Rightarrow> summary outcome \<Rightarrow> page_p0 \<Rightarrow> (page_p0 \<times> string option) \<times> event list" where
  "refresh_p0 rt rs d0 =
     (let d = d0\<lparr>p0_error := []\<rparr>;
          year = p0_year d;
          qt = GET (''/api/trips?year='' @ show_int year)
      in case rt of
           Inl m \<Rightarrow> ((d, Some m), [Issued qt, Settled qt])
         | Inr ts \<Rightarrow>
             (let d = d\<lparr>p0_tbody := map row_of_p0 ts\<rparr>;
                  qs = GET (''/api/summary?year='' @ show_int year)
              in case rs of
                   Inl m \<Rightarrow> ((d, Some m), [Issued qt, Settled qt, Issued qs, Settled qs])
                 | Inr s \<Rightarrow>
                     ((d\<lparr>p0_summary := Some \<lparr>sl_trip_count = trip_count s,
                                              sl_total_km = total_km s,
                                              sl_reimbursement = reimbursement s\<rparr>\<rparr>, None),
                      [Issued qt, Settled qt, Issued qs, Settled qs])))"

definition addTrip_request_p0 :: "page_p0 \<Rightarrow> request" where
  "addTrip_request_p0 d =
     \<lparr>req_method = ''POST'', req_url = ''/api/trips'',
      req_content_type = Some ''application/json'',
      req_body = Some [(''trip_date'', JStr (p0_trip_date d)), (''purpose'', JStr (p0_purpose d)),
                       (''origin'', JStr (p0_origin d)), (''destination'', JStr (p0_destination d)),
                       (''round_trip'', JBool (p0_round_trip d)),
                       (''travel_mode'', JStr (p0_travel_mode d))]\<rparr>"

definition addTrip_p0 ::
  "trip outcome \<Rightarrow> trip list outcome \<Rightarrow> summary outcome \<Rightarrow> page_p0 \<Rightarrow> page_p0 \<times> event list" where
  "addTrip_p0 r rt rs d0 =
     (let d = d0\<lparr>p0_error := []\<rparr>;
          d = d\<lparr>p0_status := ''Calculating route distance...''\<rparr>;
          q = addTrip_request_p0 d
      in case r of
           Inl m \<Rightarrow> (d\<lparr>p0_error := m, p0_status := []\<rparr>, [Issued q, Settled q])
         | Inr created \<Rightarrow>
             (let d = d\<lparr>p0_status := ''Saved!''\<rparr>;
                  ((d, e), evs) = refresh_p0 rt rs d
              in case e of
                   None \<Rightarrow> (d, [Issued q, Settled q] @ evs)
                 | Some m \<Rightarrow> (d\<lparr>p0_error := m, p0_status := []\<rparr>, [Issued q, Settled q] @ evs)))"

section \<open>part_001\<close>

text \<open>
  The page of the second version: the three script variables, the year field, the status
  line and its class, the table body (the placeholder row or the trip rows), the summary
  box, the console, the form fields, the add button and the two rows of location buttons.
\<close>

record row_p1 =
  r1_date :: string
  r1_purpose :: string
  r1_origin :: string
  r1_destination :: string
  r1_round_badge :: bool
  r1_km :: real
  r1_one_way :: real
  r1_factor :: string
  r1_id :: int

datatype tbody_p1 = Placeholder | Rows "row_p1 list"

record summary_box =
  sb_year :: int
  sb_trip_count :: nat
  sb_total_km :: real
  sb_reimbursement :: real
  sb_rate_high :: real

record loc_btn =
  lb_class :: string
  lb_text :: string
  lb_title :: string

record page_p1 =
  p1_locations :: "location list"
  p1_selectedOrigin :: "int option"
  p1_selectedDest :: "int option"
  p1_year :: int
  p1_status :: string
  p1_status_class :: string
  p1_tbody :: tbody_p1
  p1_summary :: "summary_box option"
  p1_console :: "string list"
  p1_trip_date :: string
  p1_purpose :: string
  p1_origin :: string
  p1_destination :: string
  p1_round_trip :: bool
  p1_btn_disabled :: bool
  p1_btn_text :: string
  p1_origin_buttons :: "loc_btn list"
  p1_dest_buttons :: "loc_btn list"

definition init_page_p1 :: "int \<Rightarrow> page_p1" where
  "init_page_p1 y =
     \<lparr>p1_locations = [], p1_selectedOrigin = None, p1_selectedDest = None, p1_year = y,
      p1_status = [], p1_status_class = [], p1_tbody = Rows [], p1_summary = None,
      p1_console = [], p1_trip_date = [], p1_purpose = [], p1_origin = [],
      p1_destination = [], p1_round_trip = True, p1_btn_disabled = False,
      p1_btn_text = ''Beregn & gem tur'', p1_origin_buttons = [], p1_dest_buttons = []\<rparr>"

definition setStatus_p1 :: "string \<Rightarrow> bool \<Rightarrow> page_p1 \<Rightarrow> page_p1" where
  "setStatus_p1 msg isError d =
     d\<lparr>p1_status := msg, p1_status_class := (if isError then ''danger'' else ''success'')\<rparr>"

definition formatAddress :: "location \<Rightarrow> string" where
  "formatAddress loc =
     (case loc_postal_code loc of
        Some pc \<Rightarrow> if pc \<noteq> [] then loc_address loc @ '', '' @ pc else loc_address loc
      | None \<Rightarrow> loc_address loc)"

definition loc_button :: "int option \<Rightarrow> location \<Rightarrow> loc_btn" where
  "loc_button selected loc =
     \<lparr>lb_class = ''loc-btn'' @ (if loc_is_home loc then '' home'' else [])
                   @ (if selected = Some (loc_id loc) then '' selected'' else []),
      lb_text = loc_name loc,
      lb_title = formatAddress loc\<rparr>"

definition renderLocations_p1 :: "page_p1 \<Rightarrow> page_p1" where
  "renderLocations_p1 d =
     d\<lparr>p1_origin_buttons := map (loc_button (p1_selectedOrigin d)) (p1_locations d),
       p1_dest_buttons := map (loc_button (p1_selectedDest d)) (p1_locations d)\<rparr>"

text \<open>
  \<^verbatim>\<open>loadSummary\<close> catches every error of its body, also the \<^verbatim>\<open>TypeError\<close> of
  \<^verbatim>\<open>s.reimbursement_dkk.toLocaleString\<close> on a summary without that field.
\<close>

definition loadSummary_settle_p1 :: "page_p1 \<Rightarrow> summary outcome \<Rightarrow> page_p1 \<Rightarrow> page_p1" where
  "loadSummary_settle_p1 d0 r d =
     (let year = p1_year d0 in
      case r of
        Inl m \<Rightarrow> d\<lparr>p1_console := p1_console d @ [''Failed to load summary:'']\<rparr>
      | Inr s \<Rightarrow>
          (case reimbursement s of
             None \<Rightarrow> d\<lparr>p1_console := p1_console d @ [''Failed to load summary:'']\<rparr>
           | Some amount \<Rightarrow>
               d\<lparr>p1_summary := Some \<lparr>sb_year = year, sb_trip_count = trip_count s,
                                      sb_total_km = total_km s, sb_reimbursement = amount,
                                      sb_rate_high = rate_high s\<rparr>\<rparr>))"

definition loadSummary_p1 :: "(page_p1, summary) task" where
  "loadSummary_p1 =
     \<lparr>t_begin = (\<lambda>d. d),
      t_request = (\<lambda>d. GET (''/api/summary?year='' @ show_int (p1_year d))),
      t_settle = (\<lambda>d0 r d. (loadSummary_settle_p1 d0 r d, None))\<rparr>"

definition oneWay_p1 :: "trip \<Rightarrow> real" where
  "oneWay_p1 t =
     (case distance_one_way_km t of
        Some w \<Rightarrow> if w \<noteq> 0 then w else (if round_trip t then distance_km t / 2 else distance_km t)
      | None \<Rightarrow> (if round_trip t then distance_km t / 2 else distance_km t))"

definition row_of_p1 :: "trip \<Rightarrow> row_p1" where
  "row_of_p1 t =
     \<lparr>r1_date = trip_date t,
      r1_purpose = escapeHtml (Some (purpose t)),
      r1_origin = escapeHtml (Some (origin t)),
      r1_destination = escapeHtml (Some (destination t)),
      r1_round_badge = round_trip t,
      r1_km = distance_km t,
      r1_one_way = oneWay_p1 t,
      r1_factor = (if round_trip t then ''2'' else ''1''),
      r1_id = trip_id t\<rparr>"

text \<open>\<^verbatim>\<open>loadTrips\<close> has no \<^verbatim>\<open>try\<close>: an error of \<^verbatim>\<open>fetchJSON\<close> rejects it.\<close>

definition loadTrips_settle_p1 :: "trip list outcome \<Rightarrow> page_p1 \<Rightarrow> page_p1 \<times> string option" where
  "loadTrips_settle_p1 r d =
     (case r of
        Inl m \<Rightarrow> (d, Some m)
      | Inr ts \<Rightarrow>
          (let d = d\<lparr>p1_tbody := Rows []\<rparr> in
           if length ts = 0 then (d\<lparr>p1_tbody := Placeholder\<rparr>, None)
           else (d\<lparr>p1_tbody := Rows (map row_of_p1 ts)\<rparr>, None)))"

definition loadTrips_p1 :: "(page_p1, trip list) task" where
  "loadTrips_p1 =
     \<lparr>t_begin = (\<lambda>d. d),
      t_request = (\<lambda>d. GET (''/api/trips?year='' @ show_int (p1_year d))),
      t_settle = (\<lambda>d0 r d. loadTrips_settle_p1 r d)\<rparr>"

text \<open>
  \<^verbatim>\<open>try { await Promise.all([loadTrips(), loadSummary()]); } catch (e) { setStatus(e.message, true); }\<close>
\<close>

definition refresh_p1 ::
  "order \<Rightarrow> trip list outcome \<Rightarrow> summary outcome \<Rightarrow> page_p1 \<Rightarrow> page_p1 \<times> event list" where
  "refresh_p1 ord rt rs d =
     promise_all2 loadTrips_p1 loadSummary_p1
       (\<lambda>e d. case e of Some m \<Rightarrow> setStatus_p1 m True d | None \<Rightarrow> d)
       ord rt rs (setStatus_p1 [] False d)"

definition addTrip_request_p1 :: "page_p1 \<Rightarrow> request" where
  "addTrip_request_p1 d =
     \<lparr>req_method = ''POST'', req_url = ''/api/trips'',
      req_content_type = Some ''application/json'',
      req_body = Some [(''trip_date'', JStr (p1_trip_date d)), (''purpose'', JStr (p1_purpose d)),
                       (''origin'', JStr (p1_origin d)), (''destination'', JStr (p1_destination d)),
                       (''round_trip'', JBool (p1_round_trip d)),
                       (''travel_mode'', JStr ''DRIVE'')]\<rparr>"

text \<open>\<^verbatim>\<open>toFixed\<close> is a parameter \<open>fmt\<close> (value and decimals).\<close>

definition addTrip_p1 ::
  "(real \<Rightarrow> nat \<Rightarrow> string) \<Rightarrow> trip outcome \<Rightarrow> order \<Rightarrow> trip list outcome \<Rightarrow> summary outcome \<Rightarrow>
     page_p1 \<Rightarrow> page_p1 \<times> event list" where
  "addTrip_p1 fmt r ord rt rs d0 =
     (let d = setStatus_p1 [] False d0;
          d = d\<lparr>p1_btn_disabled := True, p1_btn_text := ''Beregner rute...''\<rparr>;
          q = addTrip_request_p1 d;
          finish = (\<lambda>d. d\<lparr>p1_btn_disabled := False, p1_btn_text := ''Beregn & gem tur''\<rparr>)
      in case r of
           Inl m \<Rightarrow> (finish (setStatus_p1 m True d), [Issued q, Settled q])
         | Inr created \<Rightarrow>
             (let d = setStatus_p1 (''Gemt: '' @ fmt (distance_km created) 1 @ '' km'') False d;
                  d = d\<lparr>p1_purpose := [], p1_destination := []\<rparr>;
                  d = d\<lparr>p1_selectedDest := None\<rparr>;
                  d = renderLocations_p1 d;
                  (d, evs) = refresh_p1 ord rt rs d
              in (finish d, [Issued q, Settled q] @ evs)))"

section \<open>The claims' wording and example data\<close>

text \<open>
  The filter of \<^verbatim>\<open>applyFilters\<close> as one predicate on a trip: the three conditions of the
  specification, the search comparing lower-cased text on both sides.
\<close>

definition month_ok :: "(string \<Rightarrow> nat option) \<Rightarrow> client \<Rightarrow> trip \<Rightarrow> bool" where
  "month_ok getMonth c t =
     (case selectedMonth c of AllMonths \<Rightarrow> True | Month m \<Rightarrow> tripMonth getMonth t = Some m)"

definition search_ok :: "(string \<Rightarrow> string) \<Rightarrow> client \<Rightarrow> trip \<Rightarrow> bool" where
  "search_ok lower c t =
     (searchQuery c = [] \<or>
      str_includes (lower (purpose t)) (lower (searchQuery c)) \<or>
      str_includes (lower (origin t)) (lower (searchQuery c)) \<or>
      str_includes (lower (destination t)) (lower (searchQuery c)))"

definition type_ok :: "client \<Rightarrow> trip \<Rightarrow> bool" where
  "type_ok c t =
     (if activeFilter c = ''round-trip'' then round_trip t
      else if activeFilter c = ''one-way'' then \<not> round_trip t
      else True)"

text \<open>The trips of a list that pass the three filters of a client.\<close>

definition shown :: "(string \<Rightarrow> nat option) \<Rightarrow> (string \<Rightarrow> string) \<Rightarrow> client \<Rightarrow> trip list \<Rightarrow> trip list" where
  "shown gm lc c ts = filter (\<lambda>t. month_ok gm c t \<and> search_ok lc c t \<and> type_ok c t) ts"

text \<open>
  The search condition as the specification words it: the lower-cased query is a
  substring of the purpose, origin or destination as stored.
\<close>

definition search_ok_stated :: "(string \<Rightarrow> string) \<Rightarrow> client \<Rightarrow> trip \<Rightarrow> bool" where
  "search_ok_stated lower c t =
     (searchQuery c = [] \<or>
      str_includes (purpose t) (lower (searchQuery c)) \<or>
      str_includes (origin t) (lower (searchQuery c)) \<or>
      str_includes (destination t) (lower (searchQuery c)))"

text \<open>
  The one-way distance as the specification words it: the stored field when present and
  not zero, otherwise half the distance of a round trip, or the distance of a single trip.
\<close>

definition present_nonzero :: "real option \<Rightarrow> bool" where
  "present_nonzero v = (case v of Some d \<Rightarrow> d \<noteq> 0 | None \<Rightarrow> False)"

definition one_way_stated :: "trip \<Rightarrow> real" where
  "one_way_stated t =
     (if present_nonzero (distance_one_way_km t) then the (distance_one_way_km t)
      else if round_trip t then distance_km t / 2
      else distance_km t)"

text \<open>The tiered amount as the specification words it.\<close>

definition tiered :: "real \<Rightarrow> real \<Rightarrow> real \<Rightarrow> real" where
  "tiered T rh rl = (if T \<le> 20000 then T * rh else 20000 * rh + (T - 20000) * rl)"

text \<open>Two trips of 2024 and the summary of that year at the rates 3.94 and 2.28.\<close>

definition trip_jan :: trip where
  "trip_jan =
     \<lparr>trip_id = 1, trip_date = ''2024-01-15'', purpose = ''Meeting'', origin = ''Home'',
      destination = ''Aarhus'', round_trip = True, distance_km = 10,
      distance_one_way_km = Some 0\<rparr>"

definition trip_feb :: trip where
  "trip_feb =
     \<lparr>trip_id = 2, trip_date = ''2024-02-03'', purpose = ''Site visit'', origin = ''Home'',
      destination = ''Odense'', round_trip = False, distance_km = 20,
      distance_one_way_km = None\<rparr>"

definition summary_2024 :: summary where
  "summary_2024 =
     \<lparr>trip_count = 2, total_km = 30, reimbursement = Some 118.2, rate_high = 3.94,
      rate_low = 2.28\<rparr>"

section \<open>Properties\<close>

lemma str_includes_sublist: "str_includes s sub = sublist sub s"
  by (induction s) (simp_all add: sublist_Cons_right)

lemma replace_all_concat:
  "replace_all cls f s = concat (map (\<lambda>c. if cls c then f c else [c]) s)"
  by (induction s) simp_all

lemma escape_step: "(if escape_class c then escape_callback c else [c]) = entity_of c"
  by (simp add: escape_class_def escape_callback_def entity_table_def entity_of_def)

text \<open>
  C9. For every string \<open>s\<close>, \<open>escapeHtml\<close> of part_000 and part_001 replaces each of the
  five characters
  \<^verbatim>\<open>& < > " '\<close> by its entity and keeps every other character; for a null or undefined
  argument it returns the empty string.
\<close>

theorem escapeHtml_entities:
  "escapeHtml (Some s) = concat (map entity_of s) \<and> escapeHtml None = []"
  by (simp add: escapeHtml_def replace_all_concat escape_step)

theorem escapeHtml_entities_witness:
  "escapeHtml (Some ''a<b & c'') = ''a&lt;b &amp; c'' \<and> escapeHtml None = []"
  using escapeHtml_entities [of "''a<b & c''"] by (simp add: entity_of_def)






subsection \<open>Stats bar\<close>

lemma totalKm_sum: "totalKm ts = sum_list (map distance_km ts)"
proof -
  have "foldl (\<lambda>sum t. sum + distance_km t) a ts = a + sum_list (map distance_km ts)" for a
    by (induction ts arbitrary: a) simp_all
  then show ?thesis by (simp add: totalKm_def)
qed

lemma stat_amount_updateStatsDisplay:
  "stat_amount (updateStatsDisplay c) =
     tiered (sum_list (map distance_km (filteredTrips c))) (high (yearlyRates c)) (low (yearlyRates c))"
  by (simp add: updateStatsDisplay_def Let_def totalKm_sum tiered_def)

text \<open>
  C2. With \<open>T\<close> the sum of \<open>distance_km\<close> over the filtered trips, the amount written to
  the stats bar by \<open>updateStatsDisplay\<close> is \<open>T * rate_high\<close> when \<open>T \<le> 20000\<close> and
  \<open>20000 * rate_high + (T - 20000) * rate_low\<close> when \<open>T > 20000\<close>, the rates being those
  of \<open>yearlyRates\<close>.
\<close>

theorem stats_amount_tiered:
  "(sum_list (map distance_km (filteredTrips c)) \<le> 20000 \<longrightarrow>
      stat_amount (updateStatsDisplay c) =
        sum_list (map distance_km (filteredTrips c)) * high (yearlyRates c))
   \<and> (sum_list (map distance_km (filteredTrips c)) > 20000 \<longrightarrow>
      stat_amount (updateStatsDisplay c) =
        20000 * high (yearlyRates c)
        + (sum_list (map distance_km (filteredTrips c)) - 20000) * low (yearlyRates c))"
  by (simp add: stat_amount_updateStatsDisplay tiered_def)

theorem stats_amount_tiered_witness:
  "stat_amount (updateStatsDisplay ((init_client 2024)\<lparr>filteredTrips := [trip_jan, trip_feb]\<rparr>)) = 118.2
   \<and> stat_amount (updateStatsDisplay
        ((init_client 2024)\<lparr>filteredTrips := [trip_jan, trip_feb\<lparr>distance_km := 20090\<rparr>]\<rparr>)) = 79028"
proof -
  have a: "stat_amount (updateStatsDisplay ((init_client 2024)\<lparr>filteredTrips := [trip_jan, trip_feb]\<rparr>)) = 118.2"
    using stats_amount_tiered [of "(init_client 2024)\<lparr>filteredTrips := [trip_jan, trip_feb]\<rparr>"]
    by (simp add: init_client_def trip_jan_def trip_feb_def)
  have b: "stat_amount (updateStatsDisplay
        ((init_client 2024)\<lparr>filteredTrips := [trip_jan, trip_feb\<lparr>distance_km := 20090\<rparr>]\<rparr>)) = 79028"
    using stats_amount_tiered [of "(init_client 2024)\<lparr>filteredTrips := [trip_jan, trip_feb\<lparr>distance_km := 20090\<rparr>]\<rparr>"]
    by (simp add: init_client_def trip_jan_def trip_feb_def)
  from a b show ?thesis by simp
qed

subsection \<open>Filtering\<close>

lemma applyFilters_eq:
  "applyFilters gm lc c =
     c\<lparr>filteredTrips := filter (\<lambda>t. month_ok gm c t \<and> search_ok lc c t \<and> type_ok c t) (trips c)\<rparr>"
  by (cases "selectedMonth c")
     (auto simp: applyFilters_def Let_def month_ok_def search_ok_def type_ok_def
           intro!: filter_cong arg_cong [where f = "\<lambda>x. c\<lparr>filteredTrips := x\<rparr>"])

text \<open>
  C8, as amended. After \<open>applyFilters\<close>, \<open>filteredTrips\<close> is the order-preserving sublist of
  \<open>trips\<close> whose elements pass every active filter: the trip's month is the selected month
  when one is selected; the lower-cased query occurs in the lower-cased purpose, origin or
  destination when a query is set; \<open>round_trip\<close> matches the type filter. \<open>trips\<close> and every
  other part of the client are unchanged.
\<close>

theorem applyFilters_derived_copy:
  "filteredTrips (applyFilters gm lc c) =
     filter (\<lambda>t. month_ok gm c t \<and> search_ok lc c t \<and> type_ok c t) (trips c)
   \<and> trips (applyFilters gm lc c) = trips c
   \<and> applyFilters gm lc c = c\<lparr>filteredTrips := filteredTrips (applyFilters gm lc c)\<rparr>"
  by (simp add: applyFilters_eq)

theorem applyFilters_derived_copy_witness:
  "filteredTrips (applyFilters iso_month ascii_lower
      ((init_client 2024)\<lparr>trips := [trip_jan, trip_feb], selectedMonth := Month 1,
         searchQuery := ''MEET'', activeFilter := ''round-trip''\<rparr>)) = [trip_jan]
   \<and> trips (applyFilters iso_month ascii_lower
      ((init_client 2024)\<lparr>trips := [trip_jan, trip_feb], selectedMonth := Month 1,
         searchQuery := ''MEET'', activeFilter := ''round-trip''\<rparr>)) = [trip_jan, trip_feb]"
  using applyFilters_derived_copy [of iso_month ascii_lower
      "(init_client 2024)\<lparr>trips := [trip_jan, trip_feb], selectedMonth := Month 1,
         searchQuery := ''MEET'', activeFilter := ''round-trip''\<rparr>"]
  by (simp add: init_client_def trip_jan_def trip_feb_def month_ok_def search_ok_def type_ok_def
      tripMonth_def iso_month_def digit_val_def ascii_lower_def ascii_lower_char_def)

text \<open>
  C8 as stated compares the lower-cased query with the stored text. For the query
  \<open>meet\<close> and a trip whose purpose is \<open>Meeting\<close>, \<open>applyFilters\<close> keeps the trip, while the
  stated condition rejects it, the stored purpose starting with a capital letter.
\<close>

theorem applyFilters_search_counterexample:
  "filteredTrips (applyFilters iso_month ascii_lower
      ((init_client 2024)\<lparr>trips := [trip_jan, trip_feb], searchQuery := ''meet''\<rparr>)) = [trip_jan]
   \<and> filter (\<lambda>t. month_ok iso_month ((init_client 2024)\<lparr>trips := [trip_jan, trip_feb], searchQuery := ''meet''\<rparr>) t
               \<and> search_ok_stated ascii_lower ((init_client 2024)\<lparr>trips := [trip_jan, trip_feb], searchQuery := ''meet''\<rparr>) t
               \<and> type_ok ((init_client 2024)\<lparr>trips := [trip_jan, trip_feb], searchQuery := ''meet''\<rparr>) t)
        [trip_jan, trip_feb] = []"
  by (simp add: applyFilters_def Let_def init_client_def trip_jan_def trip_feb_def month_ok_def
      search_ok_stated_def type_ok_def ascii_lower_def ascii_lower_char_def)

subsection \<open>One-way distance\<close>

lemma oneWayKm_stated: "oneWayKm t = one_way_stated t"
  by (simp add: oneWayKm_def one_way_stated_def present_nonzero_def split: option.splits)

lemma oneWay_p1_stated: "oneWay_p1 t = one_way_stated t"
  by (simp add: oneWay_p1_def one_way_stated_def present_nonzero_def split: option.splits)

lemma sheet_body_renderTrips:
  "sheet_body (renderTrips c) = (if isLoading c then [] else map sheet_row_of (filteredTrips c))"
  by (simp add: renderTrips_def Let_def updateStatsDisplay_def)

text \<open>
  C10. The rows drawn by \<open>renderTrips\<close> (app.js) are those of the filtered trips, and the
  rows drawn by \<open>loadTrips\<close> (part_001) those of the trips received; in each row the one-way
  distance is \<open>distance_one_way_km\<close> when that field is present and not zero, otherwise
  \<open>distance_km / 2\<close> for a round trip and \<open>distance_km\<close> for a single trip. A stored
  \<open>distance_one_way_km\<close> of 0 gives the fallback.
\<close>

theorem one_way_distance_shown:
  "map row_trip (sheet_body (renderTrips c)) = (if isLoading c then [] else filteredTrips c)
   \<and> (\<forall>r \<in> set (sheet_body (renderTrips c)). row_one_way_km r = one_way_stated (row_trip r))
   \<and> (ts \<noteq> [] \<longrightarrow>
        (\<exists>rows. p1_tbody (fst (loadTrips_settle_p1 (Inr ts) d)) = Rows rows
               \<and> map r1_one_way rows = map one_way_stated ts))
   \<and> (distance_one_way_km t = Some w \<and> w \<noteq> 0 \<longrightarrow> one_way_stated t = w)
   \<and> (distance_one_way_km t = Some 0 \<or> distance_one_way_km t = None \<longrightarrow>
        one_way_stated t = (if round_trip t then distance_km t / 2 else distance_km t))"
  by (auto simp: sheet_body_renderTrips sheet_row_of_def oneWayKm_stated oneWay_p1_stated
        loadTrips_settle_p1_def row_of_p1_def one_way_stated_def present_nonzero_def comp_def)

theorem one_way_distance_shown_witness:
  "map row_one_way_km (sheet_body (renderTrips ((init_client 2024)\<lparr>filteredTrips :=
       [trip_jan, trip_feb, trip_feb\<lparr>distance_one_way_km := Some 19.5\<rparr>]\<rparr>))) = [5, 20, 19.5]
   \<and> p1_tbody (fst (loadTrips_settle_p1 (Inr [trip_jan, trip_feb]) (init_page_p1 2024)))
       = Rows [row_of_p1 trip_jan, row_of_p1 trip_feb]
   \<and> map r1_one_way [row_of_p1 trip_jan, row_of_p1 trip_feb] = [5, 20]
   \<and> distance_one_way_km (trip_feb\<lparr>distance_one_way_km := Some 19.5\<rparr>) = Some 19.5
   \<and> one_way_stated (trip_feb\<lparr>distance_one_way_km := Some 19.5\<rparr>) = 19.5
   \<and> distance_one_way_km trip_jan = Some 0
   \<and> one_way_stated trip_jan = 5"
  using one_way_distance_shown [of "(init_client 2024)\<lparr>filteredTrips :=
       [trip_jan, trip_feb, trip_feb\<lparr>distance_one_way_km := Some 19.5\<rparr>]\<rparr>"
       "[trip_jan, trip_feb]" "init_page_p1 2024" trip_jan 0]
    one_way_distance_shown [of "init_client 2024" "[trip_jan, trip_feb]" "init_page_p1 2024"
       "trip_feb\<lparr>distance_one_way_km := Some 19.5\<rparr>" "19.5"]
  by (simp add: sheet_body_renderTrips init_client_def sheet_row_of_def trip_jan_def trip_feb_def
      one_way_stated_def present_nonzero_def loadTrips_settle_p1_def row_of_p1_def oneWay_p1_def
      init_page_p1_def)

subsection \<open>Requests of a run\<close>

lemma promise_all2_events:
  "snd (promise_all2 A B k ord ra rb c0) =
     [Issued (t_request A (t_begin A c0)), Issued (t_request B (t_begin B (t_begin A c0)))]
     @ (case ord of
          FirstSettlesFirst \<Rightarrow>
            [Settled (t_request A (t_begin A c0)), Settled (t_request B (t_begin B (t_begin A c0)))]
        | SecondSettlesFirst \<Rightarrow>
            [Settled (t_request B (t_begin B (t_begin A c0))), Settled (t_request A (t_begin A c0))])"
  by (simp add: promise_all2_def Let_def split: order.splits prod.splits option.splits)

lemma issued_refresh:
  "issued (snd (refresh gm lc ord rt rs c)) =
     [GET (''/api/trips?year='' @ show_int (selectedYear c)),
      GET (''/api/summary?year='' @ show_int (selectedYear c))]"
  by (simp add: refresh_def promise_all2_events loadTrips_def loadSummary_def
      loadTrips_request_def loadSummary_request_def setLoading_def split: order.splits)

lemma issued_refresh_p1:
  "issued (snd (refresh_p1 ord rt rs d)) =
     [GET (''/api/trips?year='' @ show_int (p1_year d)),
      GET (''/api/summary?year='' @ show_int (p1_year d))]"
  by (simp add: refresh_p1_def promise_all2_events loadTrips_p1_def loadSummary_p1_def
      setStatus_p1_def split: order.splits)

lemma selectedYear_closeTripModal: "selectedYear (closeTripModal c) = selectedYear c"
  by (simp add: closeTripModal_def hideDistancePreview_def)

lemma issued_handleTripFormSubmit:
  "issued (snd (handleTripFormSubmit gm lc fmt r ord rt rs c)) =
     handleTripFormSubmit_request (handleTripFormSubmit_begin c)
     # (case r of Inl m \<Rightarrow> []
        | Inr created \<Rightarrow>
            [GET (''/api/trips?year='' @ show_int (selectedYear c)),
             GET (''/api/summary?year='' @ show_int (selectedYear c))])"
proof (cases r)
  case (Inl m)
  then show ?thesis
    by (simp add: handleTripFormSubmit_def handleTripFormSubmit_settle_def Let_def)
next
  case (Inr created)
  then show ?thesis
    by (simp add: handleTripFormSubmit_def handleTripFormSubmit_settle_def Let_def
        issued_refresh selectedYear_closeTripModal showToast_def handleTripFormSubmit_begin_def
        case_prod_beta)
qed

lemma issued_refresh_p0:
  "issued (snd (refresh_p0 rt rs d)) =
     GET (''/api/trips?year='' @ show_int (p0_year d))
     # (case rt of Inl m \<Rightarrow> []
        | Inr ts \<Rightarrow> [GET (''/api/summary?year='' @ show_int (p0_year d))])"
  by (cases rt; cases rs) (simp_all add: refresh_p0_def Let_def)

lemma issued_addTrip_p1:
  "issued (snd (addTrip_p1 fmt r ord rt rs d)) =
     addTrip_request_p1 d
     # (case r of Inl m \<Rightarrow> []
        | Inr created \<Rightarrow>
            [GET (''/api/trips?year='' @ show_int (p1_year d)),
             GET (''/api/summary?year='' @ show_int (p1_year d))])"
  by (cases r)
     (simp_all add: addTrip_p1_def Let_def case_prod_beta addTrip_request_p1_def
        issued_refresh_p1 setStatus_p1_def renderLocations_p1_def)

lemma issued_addTrip_p0:
  "issued (snd (addTrip_p0 r rt rs d)) =
     addTrip_request_p0 d
     # (case r of Inl m \<Rightarrow> []
        | Inr created \<Rightarrow>
            GET (''/api/trips?year='' @ show_int (p0_year d))
            # (case rt of Inl m \<Rightarrow> []
               | Inr ts \<Rightarrow> [GET (''/api/summary?year='' @ show_int (p0_year d))]))"
  by (cases r)
     (simp_all add: addTrip_p0_def Let_def case_prod_beta addTrip_request_p0_def
        issued_refresh_p0 split: option.splits sum.splits)

subsection \<open>The trip form\<close>

text \<open>
  C5. When a trip is being edited (\<open>state.editingTripId\<close> holds its id, which the test
  \<^verbatim>\<open>if (state.editingTripId)\<close> takes as set when it is not 0), submitting the form sends
  a PATCH to \<open>/api/trips/{id}\<close> whose body has exactly the two fields \<open>trip_date\<close> and
  \<open>purpose\<close>, taken from the form. The only other requests of the submission are the two
  GETs of the refresh that follows a success. The origin, destination, round_trip and
  travel_mode are not sent.
\<close>

theorem edit_sends_patch:
  assumes "editingTripId c = Some i" and "i \<noteq> 0"
  shows "issued (snd (handleTripFormSubmit gm lc fmt r ord rt rs c)) =
           \<lparr>req_method = ''PATCH'', req_url = ''/api/trips/'' @ show_int i,
            req_content_type = Some ''application/json'',
            req_body = Some [(''trip_date'', JStr (in_trip_date c)),
                             (''purpose'', JStr (in_purpose c))]\<rparr>
           # (case r of Inl m \<Rightarrow> []
              | Inr saved \<Rightarrow>
                  [GET (''/api/trips?year='' @ show_int (selectedYear c)),
                   GET (''/api/summary?year='' @ show_int (selectedYear c))])"
  using assms
  by (simp add: issued_handleTripFormSubmit handleTripFormSubmit_request_def
        handleTripFormSubmit_begin_def Let_def)

theorem edit_sends_patch_witness:
  "editingTripId ((init_client 2024)\<lparr>editingTripId := Some 7, in_trip_date := ''2024-03-01'',
       in_purpose := ''Audit'', in_origin := ''Home'', in_destination := ''Vejle''\<rparr>) = Some 7
   \<and> issued (snd (handleTripFormSubmit iso_month ascii_lower (\<lambda>v n. ''10,0'') (Inr trip_jan)
        FirstSettlesFirst (Inr [trip_jan]) (Inr summary_2024)
        ((init_client 2024)\<lparr>editingTripId := Some 7, in_trip_date := ''2024-03-01'',
           in_purpose := ''Audit'', in_origin := ''Home'', in_destination := ''Vejle''\<rparr>)))
     = [\<lparr>req_method = ''PATCH'', req_url = ''/api/trips/7'',
         req_content_type = Some ''application/json'',
         req_body = Some [(''trip_date'', JStr ''2024-03-01''), (''purpose'', JStr ''Audit'')]\<rparr>,
        GET ''/api/trips?year=2024'', GET ''/api/summary?year=2024'']"
  using edit_sends_patch [of "(init_client 2024)\<lparr>editingTripId := Some 7,
       in_trip_date := ''2024-03-01'', in_purpose := ''Audit'', in_origin := ''Home'',
       in_destination := ''Vejle''\<rparr>" 7 iso_month ascii_lower "\<lambda>v n. ''10,0''" "Inr trip_jan"
       FirstSettlesFirst "Inr [trip_jan]" "Inr summary_2024"]
  by (simp add: init_client_def show_int_def show_nat.simps digit_char_def)

text \<open>
  C6. When no trip is being edited, submitting the form of app.js sends a POST to
  \<open>/api/trips\<close> whose body has exactly the fields \<open>trip_date\<close>, \<open>purpose\<close>, \<open>origin\<close>,
  \<open>destination\<close>, \<open>round_trip\<close> and \<open>travel_mode\<close>, each from its form field and
  \<open>travel_mode\<close> the constant \<open>DRIVE\<close>; \<open>addTrip\<close> of part_001 sends the same request, and
  \<open>addTrip\<close> of part_000 sends it with \<open>travel_mode\<close> from its input. The only other
  requests of a submission are the GETs of the refresh that follows a success.
\<close>

theorem add_sends_post:
  "(\<not> truthy_id (editingTripId c) \<longrightarrow>
      issued (snd (handleTripFormSubmit gm lc fmt r ord rt rs c)) =
        \<lparr>req_method = ''POST'', req_url = ''/api/trips'',
         req_content_type = Some ''application/json'',
         req_body = Some [(''trip_date'', JStr (in_trip_date c)),
                          (''purpose'', JStr (in_purpose c)),
                          (''origin'', JStr (in_origin c)),
                          (''destination'', JStr (in_destination c)),
                          (''round_trip'', JBool (in_round_trip c)),
                          (''travel_mode'', JStr ''DRIVE'')]\<rparr>
        # (case r of Inl m \<Rightarrow> []
           | Inr created \<Rightarrow>
               [GET (''/api/trips?year='' @ show_int (selectedYear c)),
                GET (''/api/summary?year='' @ show_int (selectedYear c))]))
   \<and> issued (snd (addTrip_p1 fmt r ord rt rs d)) =
        \<lparr>req_method = ''POST'', req_url = ''/api/trips'',
         req_content_type = Some ''application/json'',
         req_body = Some [(''trip_date'', JStr (p1_trip_date d)),
                          (''purpose'', JStr (p1_purpose d)),
                          (''origin'', JStr (p1_origin d)),
                          (''destination'', JStr (p1_destination d)),
                          (''round_trip'', JBool (p1_round_trip d)),
                          (''travel_mode'', JStr ''DRIVE'')]\<rparr>
        # (case r of Inl m \<Rightarrow> []
           | Inr created \<Rightarrow>
               [GET (''/api/trips?year='' @ show_int (p1_year d)),
                GET (''/api/summary?year='' @ show_int (p1_year d))])
   \<and> issued (snd (addTrip_p0 r rt rs d0)) =
        \<lparr>req_method = ''POST'', req_url = ''/api/trips'',
         req_content_type = Some ''application/json'',
         req_body = Some [(''trip_date'', JStr (p0_trip_date d0)),
                          (''purpose'', JStr (p0_purpose d0)),
                          (''origin'', JStr (p0_origin d0)),
                          (''destination'', JStr (p0_destination d0)),
                          (''round_trip'', JBool (p0_round_trip d0)),
                          (''travel_mode'', JStr (p0_travel_mode d0))]\<rparr>
        # (case r of Inl m \<Rightarrow> []
           | Inr created \<Rightarrow>
               GET (''/api/trips?year='' @ show_int (p0_year d0))
               # (case rt of Inl m \<Rightarrow> []
                  | Inr ts \<Rightarrow> [GET (''/api/summary?year='' @ show_int (p0_year d0))]))"
proof -
  have a: "handleTripFormSubmit_request (handleTripFormSubmit_begin c) =
        \<lparr>req_method = ''POST'', req_url = ''/api/trips'',
         req_content_type = Some ''application/json'',
         req_body = Some [(''trip_date'', JStr (in_trip_date c)),
                          (''purpose'', JStr (in_purpose c)),
                          (''origin'', JStr (in_origin c)),
                          (''destination'', JStr (in_destination c)),
                          (''round_trip'', JBool (in_round_trip c)),
                          (''travel_mode'', JStr ''DRIVE'')]\<rparr>"
    if "\<not> truthy_id (editingTripId c)"
    using that
    by (simp add: handleTripFormSubmit_request_def handleTripFormSubmit_begin_def Let_def
        truthy_id_def split: option.splits)
  show ?thesis
    by (simp add: issued_handleTripFormSubmit a issued_addTrip_p1 issued_addTrip_p0
        addTrip_request_p1_def addTrip_request_p0_def)
qed

theorem add_sends_post_witness:
  "issued (snd (handleTripFormSubmit iso_month ascii_lower (\<lambda>v n. ''10,0'') (Inr trip_jan)
        SecondSettlesFirst (Inr [trip_jan]) (Inr summary_2024)
        ((init_client 2024)\<lparr>in_trip_date := ''2024-01-15'', in_purpose := ''Meeting'',
           in_origin := ''Home'', in_destination := ''Aarhus''\<rparr>)))
     = [\<lparr>req_method = ''POST'', req_url = ''/api/trips'',
         req_content_type = Some ''application/json'',
         req_body = Some [(''trip_date'', JStr ''2024-01-15''), (''purpose'', JStr ''Meeting''),
                          (''origin'', JStr ''Home''), (''destination'', JStr ''Aarhus''),
                          (''round_trip'', JBool True), (''travel_mode'', JStr ''DRIVE'')]\<rparr>,
        GET ''/api/trips?year=2024'', GET ''/api/summary?year=2024'']
   \<and> issued (snd (addTrip_p1 (\<lambda>v n. ''10.0'') (Inr trip_jan) SecondSettlesFirst
        (Inr [trip_jan]) (Inr summary_2024)
        ((init_page_p1 2024)\<lparr>p1_trip_date := ''2024-01-15'', p1_purpose := ''Meeting''\<rparr>)))
     = [\<lparr>req_method = ''POST'', req_url = ''/api/trips'',
         req_content_type = Some ''application/json'',
         req_body = Some [(''trip_date'', JStr ''2024-01-15''), (''purpose'', JStr ''Meeting''),
                          (''origin'', JStr []), (''destination'', JStr []),
                          (''round_trip'', JBool True), (''travel_mode'', JStr ''DRIVE'')]\<rparr>,
        GET ''/api/trips?year=2024'', GET ''/api/summary?year=2024'']
   \<and> issued (snd (addTrip_p0 (Inl ''HTTP 500'') (Inr [trip_jan]) (Inr summary_2024)
        ((init_page_p0 2024)\<lparr>p0_trip_date := ''2024-01-15'', p0_travel_mode := ''BICYCLE''\<rparr>)))
     = [\<lparr>req_method = ''POST'', req_url = ''/api/trips'',
         req_content_type = Some ''application/json'',
         req_body = Some [(''trip_date'', JStr ''2024-01-15''), (''purpose'', JStr []),
                          (''origin'', JStr []), (''destination'', JStr []),
                          (''round_trip'', JBool False), (''travel_mode'', JStr ''BICYCLE'')]\<rparr>]"
  using add_sends_post [where c = "(init_client 2024)\<lparr>in_trip_date := ''2024-01-15'',
        in_purpose := ''Meeting'', in_origin := ''Home'', in_destination := ''Aarhus''\<rparr>"
      and gm = iso_month and lc = ascii_lower and fmt = "\<lambda>v n. ''10,0''" and r = "Inr trip_jan"
      and ord = SecondSettlesFirst and rt = "Inr [trip_jan]" and rs = "Inr summary_2024"]
    add_sends_post [where fmt = "\<lambda>v n. ''10.0''" and r = "Inr trip_jan"
      and ord = SecondSettlesFirst and rt = "Inr [trip_jan]" and rs = "Inr summary_2024"
      and d = "(init_page_p1 2024)\<lparr>p1_trip_date := ''2024-01-15'', p1_purpose := ''Meeting''\<rparr>"]
    add_sends_post [where r = "Inl ''HTTP 500''" and rt = "Inr [trip_jan]"
      and rs = "Inr summary_2024"
      and ?d0.0 = "(init_page_p0 2024)\<lparr>p0_trip_date := ''2024-01-15'', p0_travel_mode := ''BICYCLE''\<rparr>"]
  by (simp add: init_client_def init_page_p1_def init_page_p0_def truthy_id_def show_int_def
      show_nat.simps digit_char_def)

subsection \<open>Calendar events\<close>

text \<open>
  C7. When loading the calendar events fails with message \<open>m\<close>, no error toast is added
  exactly when \<open>m\<close> contains \<open>not configured\<close> or \<open>501\<close>; otherwise the toast \<open>m\<close> of type
  \<open>error\<close> is added. In both cases the not-connected panel is shown, and the loading, empty
  and events panels are hidden.
\<close>

theorem calendar_failure_toast:
  "toasts (fst (loadCalendarEvents (Inl m) c)) =
     (if sublist ''not configured'' m \<or> sublist ''501'' m then toasts c
      else toasts c @ [(m, ''error'')])
   \<and> \<not> cal_not_connected_hidden (fst (loadCalendarEvents (Inl m) c))
   \<and> cal_loading_hidden (fst (loadCalendarEvents (Inl m) c))
   \<and> cal_empty_hidden (fst (loadCalendarEvents (Inl m) c))
   \<and> cal_events_hidden (fst (loadCalendarEvents (Inl m) c))"
  by (simp add: loadCalendarEvents_def loadCalendarEvents_settle_def loadCalendarEvents_begin_def
      showToast_def Let_def str_includes_sublist)

theorem calendar_failure_toast_witness:
  "toasts (fst (loadCalendarEvents (Inl ''HTTP 501'') (init_client 2024))) = []
   \<and> toasts (fst (loadCalendarEvents (Inl ''Calendar not configured'') (init_client 2024))) = []
   \<and> toasts (fst (loadCalendarEvents (Inl ''HTTP 500'') (init_client 2024)))
       = [(''HTTP 500'', ''error'')]
   \<and> cal_not_connected_hidden (fst (loadCalendarEvents (Inl ''HTTP 500'') (init_client 2024))) = False"
  using calendar_failure_toast [of "''HTTP 501''" "init_client 2024"]
    calendar_failure_toast [of "''Calendar not configured''" "init_client 2024"]
    calendar_failure_toast [of "''HTTP 500''" "init_client 2024"]
  by (simp add: init_client_def str_includes_sublist [symmetric])

subsection \<open>Refresh\<close>

lemma loadSummary_settle_Inr:
  "loadSummary_settle (Inr s) c =
     c\<lparr>yearlyRates := \<lparr>high = rate_high s, low = rate_low s\<rparr>,
       stat_trips := length (filteredTrips c),
       stat_km := totalKm (filteredTrips c),
       stat_amount := tiered (totalKm (filteredTrips c)) (rate_high s) (rate_low s),
       stat_rate := rate_high s\<rparr>"
  by (simp add: loadSummary_settle_def updateStatsDisplay_def Let_def tiered_def)

lemma loadTrips_settle_Inr:
  "loadTrips_settle gm lc (Inr ts) c =
     c\<lparr>trips := ts,
       filteredTrips := shown gm lc c ts,
       stat_trips := length (shown gm lc c ts),
       stat_km := totalKm (shown gm lc c ts),
       stat_amount := tiered (totalKm (shown gm lc c ts)) (high (yearlyRates c)) (low (yearlyRates c)),
       stat_rate := high (yearlyRates c),
       empty_hidden := (shown gm lc c ts \<noteq> [] \<or> isLoading c),
       sheet_body := (if shown gm lc c ts = [] \<or> isLoading c then []
                      else map sheet_row_of (shown gm lc c ts)),
       tab_all_has_data := (ts \<noteq> []),
       tab_all_count := (if ts \<noteq> [] then Some (length ts) else None),
       tabs_with_data :=
         filter (\<lambda>m. filter (\<lambda>t. tripMonth gm t = Some m) ts \<noteq> []) [1..<13],
       isLoading := False,
       loading_hidden := True\<rparr>"
proof -
  have f: "filter (\<lambda>t. month_ok gm (c\<lparr>trips := ts\<rparr>) t \<and> search_ok lc (c\<lparr>trips := ts\<rparr>) t
                         \<and> type_ok (c\<lparr>trips := ts\<rparr>) t) ts = shown gm lc c ts"
    by (simp add: shown_def month_ok_def search_ok_def type_ok_def)
  have a: "applyFilters gm lc (c\<lparr>trips := ts\<rparr>) = c\<lparr>trips := ts, filteredTrips := shown gm lc c ts\<rparr>"
    by (simp add: applyFilters_eq f)
  have r: "renderTrips (c\<lparr>trips := ts, filteredTrips := F\<rparr>) =
     c\<lparr>trips := ts, filteredTrips := F,
       stat_trips := length F, stat_km := totalKm F,
       stat_amount := tiered (totalKm F) (high (yearlyRates c)) (low (yearlyRates c)),
       stat_rate := high (yearlyRates c),
       empty_hidden := (F \<noteq> [] \<or> isLoading c),
       loading_hidden := (\<not> isLoading c),
       sheet_body := (if F = [] \<or> isLoading c then [] else map sheet_row_of F)\<rparr>" for F
    by (simp add: renderTrips_def updateStatsDisplay_def Let_def tiered_def)
  show ?thesis
    by (simp add: loadTrips_settle_def a r updateMonthTabIndicators_def setLoading_def Let_def)
qed

lemma loadTrips_settle_Inl:
  "loadTrips_settle gm lc (Inl m) c =
     c\<lparr>toasts := toasts c @ [(m, ''error'')], live_region := m, isLoading := False,
       loading_hidden := True\<rparr>"
  by (simp add: loadTrips_settle_def showToast_def setLoading_def)

lemma loadSummary_settle_Inl:
  "loadSummary_settle (Inl m) c =
     c\<lparr>console_errors := console_errors c @ [''Failed to load summary:'']\<rparr>"
  by (simp add: loadSummary_settle_def)

lemma settle_commute_Inl_Inl: "loadSummary_settle (Inl m') (loadTrips_settle gm lc (Inl m) c) =
   loadTrips_settle gm lc (Inl m) (loadSummary_settle (Inl m') c)"
    by (simp add: loadTrips_settle_Inl loadSummary_settle_Inl)

lemma settle_commute_Inl_Inr: "loadSummary_settle (Inr s) (loadTrips_settle gm lc (Inl m) c) =
   loadTrips_settle gm lc (Inl m) (loadSummary_settle (Inr s) c)"
    by (simp add: loadTrips_settle_Inl loadSummary_settle_Inr)

lemma fst_refresh:
  "fst (refresh gm lc ord rt rs c) =
     (case ord of
        FirstSettlesFirst \<Rightarrow> loadSummary_settle rs (loadTrips_settle gm lc rt (setLoading True c))
      | SecondSettlesFirst \<Rightarrow> loadTrips_settle gm lc rt (loadSummary_settle rs (setLoading True c)))"
  by (simp add: refresh_def promise_all2_def Let_def loadTrips_def loadSummary_def
      split: order.splits)

lemma shown_after_summary:
  "shown gm lc (c\<lparr>yearlyRates := r, stat_trips := a, stat_km := b, stat_amount := d,
       stat_rate := e\<rparr>) ts = shown gm lc c ts"
  "shown gm lc (c\<lparr>console_errors := x\<rparr>) ts = shown gm lc c ts"
  by (simp_all add: shown_def month_ok_def search_ok_def type_ok_def)

lemma settle_commute_Inr_Inl: "loadSummary_settle (Inl m) (loadTrips_settle gm lc (Inr ts) c) =
   loadTrips_settle gm lc (Inr ts) (loadSummary_settle (Inl m) c)"
    by (simp add: loadTrips_settle_Inr loadSummary_settle_Inl shown_after_summary)

lemma settle_commute_Inr_Inr: "loadSummary_settle (Inr s) (loadTrips_settle gm lc (Inr ts) c) =
   loadTrips_settle gm lc (Inr ts) (loadSummary_settle (Inr s) c)"
    by (simp add: loadTrips_settle_Inr loadSummary_settle_Inr shown_after_summary)

lemma settle_commute:
  "loadSummary_settle rs (loadTrips_settle gm lc rt c) =
   loadTrips_settle gm lc rt (loadSummary_settle rs c)"
  by (cases rt; cases rs) (simp_all only: settle_commute_Inr_Inr settle_commute_Inr_Inl settle_commute_Inl_Inr
        settle_commute_Inl_Inl)

lemma refresh_order_independent:
  "fst (refresh gm lc FirstSettlesFirst rt rs c) = fst (refresh gm lc SecondSettlesFirst rt rs c)"
  by (simp add: fst_refresh settle_commute)

lemma fst_refresh_any:
  "fst (refresh gm lc ord rt rs c) =
     loadSummary_settle rs (loadTrips_settle gm lc rt (setLoading True c))"
  by (cases ord) (simp_all add: fst_refresh settle_commute)

lemma shown_setLoading: "shown gm lc (setLoading b c) ts = shown gm lc c ts"
  by (simp add: shown_def month_ok_def search_ok_def type_ok_def setLoading_def)

lemma stat_amount_refresh:
  "stat_amount (fst (refresh gm lc ord (Inr ts) (Inr s) c)) =
     tiered (sum_list (map distance_km (shown gm lc c ts))) (rate_high s) (rate_low s)"
  by (simp add: fst_refresh_any loadSummary_settle_Inr loadTrips_settle_Inr shown_setLoading
      totalKm_sum)

lemma refresh_p1_order_independent:
  "fst (refresh_p1 FirstSettlesFirst rt rs d) = fst (refresh_p1 SecondSettlesFirst rt rs d)"
  by (cases rt; cases rs)
     (simp_all add: refresh_p1_def promise_all2_def Let_def loadTrips_p1_def loadSummary_p1_def
        loadTrips_settle_p1_def loadSummary_settle_p1_def setStatus_p1_def
        split: option.splits)

lemma p1_summary_refresh:
  "reimbursement s = Some a \<Longrightarrow>
   map_option sb_reimbursement (p1_summary (fst (refresh_p1 ord rt (Inr s) d))) = Some a"
  by (cases rt; cases ord)
     (simp_all add: refresh_p1_def promise_all2_def Let_def loadTrips_p1_def loadSummary_p1_def
        loadTrips_settle_p1_def loadSummary_settle_p1_def setStatus_p1_def)

lemma p0_summary_refresh:
  "map_option sl_reimbursement (p0_summary (fst (fst (refresh_p0 (Inr ts) (Inr s) d0))))
     = Some (reimbursement s)"
  by (simp add: refresh_p0_def Let_def)

lemma issued_together_promise_all2:
  "issued_together (snd (promise_all2 A B k ord ra rb c0))"
  by (simp add: promise_all2_events split: order.splits)

text \<open>
  C1, as amended. In part_000 and part_001 the reimbursement figure shown after a refresh
  is the reimbursement estimate returned by \<open>GET /api/summary\<close>. In app.js the figure shown
  is computed in the client: after a refresh it is the tiered amount, at the threshold of
  20000 km, of the total distance of the filtered trips at the rates \<open>rate_high\<close> and
  \<open>rate_low\<close> of the summary.
\<close>

theorem reimbursement_figure_source:
  "map_option sl_reimbursement (p0_summary (fst (fst (refresh_p0 (Inr ts) (Inr s) d0))))
     = Some (reimbursement s)
   \<and> (reimbursement s = Some a \<longrightarrow>
        map_option sb_reimbursement (p1_summary (fst (refresh_p1 ord rt (Inr s) d))) = Some a)
   \<and> stat_amount (fst (refresh gm lc ord (Inr ts) (Inr s) c)) =
        tiered (sum_list (map distance_km (shown gm lc c ts))) (rate_high s) (rate_low s)
   \<and> filteredTrips (fst (refresh gm lc ord (Inr ts) (Inr s) c)) = shown gm lc c ts"
proof -
  have "filteredTrips (fst (refresh gm lc ord (Inr ts) (Inr s) c)) = shown gm lc c ts"
    by (simp add: fst_refresh_any loadSummary_settle_Inr loadTrips_settle_Inr shown_setLoading)
  with p0_summary_refresh p1_summary_refresh stat_amount_refresh show ?thesis
    by blast
qed

theorem reimbursement_figure_source_witness:
  "map_option sl_reimbursement (p0_summary (fst (fst
       (refresh_p0 (Inr [trip_jan, trip_feb]) (Inr summary_2024) (init_page_p0 2024)))))
     = Some (Some 118.2)
   \<and> map_option sb_reimbursement (p1_summary (fst
       (refresh_p1 FirstSettlesFirst (Inr [trip_jan, trip_feb]) (Inr summary_2024)
          (init_page_p1 2024)))) = Some 118.2
   \<and> stat_amount (fst (refresh iso_month ascii_lower FirstSettlesFirst
        (Inr [trip_jan, trip_feb]) (Inr summary_2024) (init_client 2024))) = 118.2"
  using reimbursement_figure_source [where ts = "[trip_jan, trip_feb]" and s = summary_2024
      and ?d0.0 = "init_page_p0 2024" and a = "118.2" and ord = FirstSettlesFirst
      and rt = "Inr [trip_jan, trip_feb]" and d = "init_page_p1 2024" and gm = iso_month
      and lc = ascii_lower and c = "init_client 2024"]
  by (simp add: summary_2024_def shown_def month_ok_def search_ok_def type_ok_def
      init_client_def tiered_def trip_jan_def trip_feb_def)

text \<open>
  C1 as stated fails in app.js. With the tab of January selected, a refresh that receives
  the two trips of 2024 and the summary of the year, estimate 118.2, shows 39.4, the
  amount of the one trip of January, whichever response arrives first.
\<close>

theorem reimbursement_recomputed_counterexample:
  "stat_amount (fst (refresh iso_month ascii_lower FirstSettlesFirst
        (Inr [trip_jan, trip_feb]) (Inr summary_2024)
        ((init_client 2024)\<lparr>selectedMonth := Month 1\<rparr>))) = 39.4
   \<and> stat_amount (fst (refresh iso_month ascii_lower SecondSettlesFirst
        (Inr [trip_jan, trip_feb]) (Inr summary_2024)
        ((init_client 2024)\<lparr>selectedMonth := Month 1\<rparr>))) = 39.4
   \<and> reimbursement summary_2024 = Some 118.2
   \<and> Some (39.4 :: real) \<noteq> reimbursement summary_2024"
  by (simp add: stat_amount_refresh summary_2024_def shown_def month_ok_def search_ok_def
      type_ok_def init_client_def tiered_def trip_jan_def trip_feb_def tripMonth_def
      iso_month_def digit_val_def)

text \<open>
  C4, as amended. In part_001 and in app.js, \<open>refresh\<close> sends its two requests, for the
  trips and for the summary of the year, before either has settled, and the state it
  ends in is the same whichever response arrives first. In part_000, \<open>refresh\<close> sends
  the request for the summary after the request for the trips has settled, and only when
  that one succeeded.
\<close>

theorem refresh_requests_joint:
  "issued_together (snd (refresh gm lc ord rt rs c))
   \<and> issued (snd (refresh gm lc ord rt rs c)) =
       [GET (''/api/trips?year='' @ show_int (selectedYear c)),
        GET (''/api/summary?year='' @ show_int (selectedYear c))]
   \<and> fst (refresh gm lc FirstSettlesFirst rt rs c) = fst (refresh gm lc SecondSettlesFirst rt rs c)
   \<and> issued_together (snd (refresh_p1 ord rt rs d))
   \<and> issued (snd (refresh_p1 ord rt rs d)) =
       [GET (''/api/trips?year='' @ show_int (p1_year d)),
        GET (''/api/summary?year='' @ show_int (p1_year d))]
   \<and> fst (refresh_p1 FirstSettlesFirst rt rs d) = fst (refresh_p1 SecondSettlesFirst rt rs d)
   \<and> snd (refresh_p0 (Inr ts) rs d0) =
       [Issued (GET (''/api/trips?year='' @ show_int (p0_year d0))),
        Settled (GET (''/api/trips?year='' @ show_int (p0_year d0))),
        Issued (GET (''/api/summary?year='' @ show_int (p0_year d0))),
        Settled (GET (''/api/summary?year='' @ show_int (p0_year d0)))]
   \<and> snd (refresh_p0 (Inl m) rs d0) =
       [Issued (GET (''/api/trips?year='' @ show_int (p0_year d0))),
        Settled (GET (''/api/trips?year='' @ show_int (p0_year d0)))]"
proof -
  have "issued_together (snd (refresh gm lc ord rt rs c))"
    by (simp add: refresh_def issued_together_promise_all2)
  moreover have "issued_together (snd (refresh_p1 ord rt rs d))"
    by (simp add: refresh_p1_def issued_together_promise_all2)
  moreover have "snd (refresh_p0 (Inr ts) rs d0) =
       [Issued (GET (''/api/trips?year='' @ show_int (p0_year d0))),
        Settled (GET (''/api/trips?year='' @ show_int (p0_year d0))),
        Issued (GET (''/api/summary?year='' @ show_int (p0_year d0))),
        Settled (GET (''/api/summary?year='' @ show_int (p0_year d0)))]"
    by (cases rs) (simp_all add: refresh_p0_def Let_def)
  moreover have "snd (refresh_p0 (Inl m) rs d0) =
       [Issued (GET (''/api/trips?year='' @ show_int (p0_year d0))),
        Settled (GET (''/api/trips?year='' @ show_int (p0_year d0)))]"
    by (simp add: refresh_p0_def Let_def)
  ultimately show ?thesis
    using issued_refresh issued_refresh_p1 refresh_order_independent refresh_p1_order_independent
    by blast
qed

theorem refresh_requests_joint_witness:
  "issued (snd (refresh iso_month ascii_lower SecondSettlesFirst (Inr [trip_jan, trip_feb])
        (Inr summary_2024) (init_client 2024)))
     = [GET ''/api/trips?year=2024'', GET ''/api/summary?year=2024'']
   \<and> issued (snd (refresh_p1 SecondSettlesFirst (Inl ''HTTP 500'') (Inr summary_2024)
        (init_page_p1 2024)))
     = [GET ''/api/trips?year=2024'', GET ''/api/summary?year=2024'']
   \<and> fst (refresh iso_month ascii_lower FirstSettlesFirst (Inr [trip_jan, trip_feb])
        (Inr summary_2024) (init_client 2024))
     = fst (refresh iso_month ascii_lower SecondSettlesFirst (Inr [trip_jan, trip_feb])
        (Inr summary_2024) (init_client 2024))
   \<and> fst (refresh_p1 FirstSettlesFirst (Inl ''HTTP 500'') (Inr summary_2024) (init_page_p1 2024))
     = fst (refresh_p1 SecondSettlesFirst (Inl ''HTTP 500'') (Inr summary_2024) (init_page_p1 2024))"
proof -
  have y: "selectedYear (init_client 2024) = 2024" "p1_year (init_page_p1 2024) = 2024"
    by (simp_all add: init_client_def init_page_p1_def)
  have s: "show_int 2024 = ''2024''"
    by (simp add: show_int_def show_nat.simps digit_char_def)
  show ?thesis
    using refresh_requests_joint [where gm = iso_month and lc = ascii_lower
        and ord = SecondSettlesFirst and rt = "Inr [trip_jan, trip_feb]"
        and rs = "Inr summary_2024" and c = "init_client 2024" and d = "init_page_p1 2024"]
      refresh_requests_joint [where gm = iso_month and lc = ascii_lower
        and ord = SecondSettlesFirst and rt = "Inl ''HTTP 500''"
        and rs = "Inr summary_2024" and c = "init_client 2024" and d = "init_page_p1 2024"]
    by (simp only: y s append.simps)
qed

text \<open>
  C4 as stated fails in part_000, whose \<open>refresh\<close> awaits the trips before it asks for the
  summary: the summary request is sent after the trips request has settled, and is not
  sent at all when the trips request fails.
\<close>

theorem refresh_p0_sequential_counterexample:
  "snd (refresh_p0 (Inr [trip_jan, trip_feb]) (Inr summary_2024) (init_page_p0 2024))
     = [Issued (GET ''/api/trips?year=2024''), Settled (GET ''/api/trips?year=2024''),
        Issued (GET ''/api/summary?year=2024''), Settled (GET ''/api/summary?year=2024'')]
   \<and> \<not> issued_together
         (snd (refresh_p0 (Inr [trip_jan, trip_feb]) (Inr summary_2024) (init_page_p0 2024)))
   \<and> issued (snd (refresh_p0 (Inl ''HTTP 500'') (Inr summary_2024) (init_page_p0 2024)))
     = [GET ''/api/trips?year=2024'']"
  by (simp add: refresh_p0_def Let_def init_page_p0_def show_int_def show_nat.simps
      digit_char_def)

end
